theory Spec2Isabelle
  imports Main "HOL-Library.Word"
begin

unbundle bit_operations_syntax

section \<open>The Monaco bridge of the highlighter (packages/monaco/src/index.ts)\<close>

text \<open>
  JavaScript strings are modelled as \<open>string\<close>, a list of 8-bit code units: \<open>length\<close>
  is the source's \<open>.length\<close>, and the code units are those of Latin-1. A value of type
  \<open>string | undefined\<close> is a \<open>string option\<close>, with \<open>None\<close> for \<open>undefined\<close>.
\<close>

subsection \<open>String primitives used by the source\<close>

text \<open>
  \<open>String.prototype.toLowerCase\<close> on one code unit of the Latin-1 range: the letters
  \<open>A\<close>..\<open>Z\<close> (65..90) and the accented capitals 192..222 other than the multiplication
  sign 215 move up by 32; every other code unit stays.
\<close>

definition toLowerCase_unit :: "char \<Rightarrow> char" where
  "toLowerCase_unit c =
     (let n = (of_char c :: nat)
      in if (65 \<le> n \<and> n \<le> 90) \<or> (192 \<le> n \<and> n \<le> 222 \<and> n \<noteq> 215)
         then char_of (n + 32) else c)"

definition toLowerCase :: "string \<Rightarrow> string" where
  "toLowerCase s = map toLowerCase_unit s"

text \<open>
  \<open>s.replace(p, r)\<close> with a one-unit string pattern \<open>p\<close>: only the first occurrence of
  \<open>p\<close> is replaced, wherever it stands.
\<close>

fun replace :: "string \<Rightarrow> char \<Rightarrow> string \<Rightarrow> string" where
  "replace [] p r = []"
| "replace (c # cs) p r = (if c = p then r @ cs else c # replace cs p r)"

text \<open>\<open>color.split('').map(c => c + c).join('')\<close>\<close>

definition split_map_join :: "string \<Rightarrow> string" where
  "split_map_join s = concat (map (\<lambda>c. [c, c]) s)"

subsection \<open>normalizeColor\<close>

text \<open>
  \<open>if (!color) return color\<close> returns \<open>undefined\<close> and the empty string as they are.
\<close>

definition normalizeColor :: "string option \<Rightarrow> string option" where
  "normalizeColor color =
     (case color of
        None \<Rightarrow> None
      | Some s \<Rightarrow>
          if s = [] then Some s
          else
            let c = toLowerCase (replace s (CHR ''#'') []);
                c' = (if length c = 3 \<or> length c = 4 then split_map_join c else c)
            in Some c')"

text \<open>The overload \<open>normalizeColor(color: string): string\<close>.\<close>

definition normalizeColor_str :: "string \<Rightarrow> string" where
  "normalizeColor_str s = (case normalizeColor (Some s) of Some c \<Rightarrow> c | None \<Rightarrow> [])"

text \<open>
  The contract of the Color Normalizer in the words of the specification, for comparison
  with the source: absent stays absent; otherwise strip any leading marker, lowercase, and
  if the remaining digits number 3 or 4, expand each digit by duplication.
\<close>

definition strip_leading_marker :: "string \<Rightarrow> string" where
  "strip_leading_marker s = (case s of [] \<Rightarrow> [] | c # cs \<Rightarrow> if c = CHR ''#'' then cs else s)"

definition normalizeColor_spec :: "string option \<Rightarrow> string option" where
  "normalizeColor_spec color =
     (case color of
        None \<Rightarrow> None
      | Some s \<Rightarrow>
          let c = toLowerCase (strip_leading_marker s)
          in Some (if length c = 3 \<or> length c = 4 then split_map_join c else c))"

text \<open>
  The normalized form of the specification's data model: lowercase, no marker, and not a
  short form (3 or 4 units) that would still be expanded.
\<close>

definition normalized_form :: "string \<Rightarrow> bool" where
  "normalized_form s \<longleftrightarrow>
     toLowerCase s = s \<and> CHR ''#'' \<notin> set s \<and> length s \<noteq> 3 \<and> length s \<noteq> 4"

subsection \<open>Themes in the two schemas\<close>

text \<open>
  The host form (\<open>monaco.editor.IStandaloneThemeData\<close>): a rule has a token and an
  optional foreground; the color table keeps the order of its entries.
\<close>

record ITokenThemeRule =
  token :: string
  foreground :: "string option"

record MonacoTheme =
  base :: string
  inherit :: bool
  colors :: "(string \<times> string) list"
  rules :: "ITokenThemeRule list"

text \<open>
  The source form (\<open>ThemeRegistrationResolved\<close>) as the JavaScript object the converter
  reads: every field the converter tests for presence is optional here. An entry's
  \<open>scope\<close> is absent, one string or an array of strings; its \<open>settings\<close> object may be
  missing, and so may the \<open>foreground\<close> inside it.
\<close>

datatype ScopeField = ScopeUndefined | ScopeString string | ScopeArray "string list"

datatype Settings = Settings (settings_foreground: "string option")

record IRawThemeSetting =
  scope :: ScopeField
  settings :: "Settings option"

record ThemeRegistrationResolved =
  theme_rules :: "ITokenThemeRule list option"
  theme_settings :: "IRawThemeSetting list option"
  theme_tokenColors :: "IRawThemeSetting list option"
  theme_colors :: "(string \<times> string) list option"
  theme_type :: string

text \<open>Reading a property of \<open>undefined\<close>, or iterating it, raises a \<open>TypeError\<close>.\<close>

datatype error = TypeError

subsection \<open>textmateThemeToMonacoTheme\<close>

text \<open>\<open>Array.isArray(scope) ? scope : [scope]\<close>\<close>

definition scopes_of :: "ScopeField \<Rightarrow> string option list" where
  "scopes_of sc =
     (case sc of
        ScopeArray xs \<Rightarrow> map Some xs
      | ScopeString s \<Rightarrow> [Some s]
      | ScopeUndefined \<Rightarrow> [None])"

text \<open>
  The inner loop \<open>for (const s of scopes)\<close>: \<open>settings.foreground\<close> is read once per
  scope, so a missing \<open>settings\<close> object raises at the first scope, and not at all when
  the scope array is empty. A rule is pushed when the foreground and the scope are both
  truthy (present and not the empty string).
\<close>

fun push_scopes ::
  "Settings option \<Rightarrow> string option list \<Rightarrow> ITokenThemeRule list \<Rightarrow> error + ITokenThemeRule list"
where
  "push_scopes st [] rs = Inr rs"
| "push_scopes st (s # ss) rs =
     (case st of
        None \<Rightarrow> Inl TypeError
      | Some (Settings fg) \<Rightarrow>
          (case (fg, s) of
             (Some f, Some t) \<Rightarrow>
               if f \<noteq> [] \<and> t \<noteq> []
               then push_scopes st ss (rs @ [\<lparr>token = t, foreground = normalizeColor (Some f)\<rparr>])
               else push_scopes st ss rs
           | _ \<Rightarrow> push_scopes st ss rs))"

text \<open>The outer loop \<open>for (const { scope, settings } of themeSettings)\<close>.\<close>

fun push_settings ::
  "IRawThemeSetting list \<Rightarrow> ITokenThemeRule list \<Rightarrow> error + ITokenThemeRule list"
where
  "push_settings [] rs = Inr rs"
| "push_settings (e # es) rs =
     (case push_scopes (settings e) (scopes_of (scope e)) rs of
        Inl err \<Rightarrow> Inl err
      | Inr rs' \<Rightarrow> push_settings es rs')"

text \<open>
  \<open>theme.settings || theme.tokenColors\<close>: an array, even an empty one, is truthy.
  Iterating \<open>undefined\<close> raises.
\<close>

definition themeSettings_of :: "ThemeRegistrationResolved \<Rightarrow> IRawThemeSetting list option" where
  "themeSettings_of theme =
     (case theme_settings theme of Some ts \<Rightarrow> Some ts | None \<Rightarrow> theme_tokenColors theme)"

definition textmateThemeToMonacoTheme :: "ThemeRegistrationResolved \<Rightarrow> error + MonacoTheme" where
  "textmateThemeToMonacoTheme theme =
     (let rules_or_error =
            (case theme_rules theme of
               Some rs \<Rightarrow> Inr rs
             | None \<Rightarrow>
                 (case themeSettings_of theme of
                    None \<Rightarrow> Inl TypeError
                  | Some themeSettings \<Rightarrow> push_settings themeSettings []))
      in case rules_or_error of
           Inl err \<Rightarrow> Inl err
         | Inr rs \<Rightarrow>
             Inr \<lparr>base = (if theme_type theme = ''light'' then ''vs'' else ''vs-dark''),
                  inherit = False,
                  colors = map (\<lambda>(key, v). (key, CHR ''#'' # normalizeColor_str v))
                             (case theme_colors theme of None \<Rightarrow> [] | Some cs \<Rightarrow> cs),
                  rules = rs\<rparr>)"

subsection \<open>The highlighting engine and the grammar interpreter\<close>

text \<open>
  A stack handle and a highlighter are objects compared by reference: each is modelled by
  its identity.
\<close>

type_synonym StateStack = nat
type_synonym href = nat

text \<open>
  The result of \<open>tokenizeLine2\<close>: the \<open>Uint32Array\<close> of interleaved start offsets and
  metadata, the new stack handle and the early-stop flag.
\<close>

record ITokenizeLineResult2 =
  r_tokens :: "32 word list"
  r_ruleStack :: StateStack
  r_stoppedEarly :: bool

type_synonym Grammar = "string \<Rightarrow> StateStack \<Rightarrow> nat \<Rightarrow> ITokenizeLineResult2"

text \<open>
  The engine (\<open>ShikiInternal\<close>) is an external collaborator. Its tables are parameters of
  the model: the loaded themes and languages, the grammar of a language (whose output
  may depend on the engine's active theme) and the color table resolved for a theme
  identifier. Its one mutable part is the active theme.
\<close>

record ShikiInternal =
  getLoadedThemes :: "string list"
  getLoadedLanguages :: "string list"
  getTheme :: "string \<Rightarrow> ThemeRegistrationResolved"
  getLanguage :: "string \<Rightarrow> string option \<Rightarrow> Grammar"
  resolvedColorMap :: "string option \<Rightarrow> string list"
  activeTheme :: "string option"

subsection \<open>TokenizerState\<close>

text \<open>
  A \<open>TokenizerState\<close> object is immutable; \<open>oid\<close> is its identity, given by \<open>new\<close>, and
  \<open>other !== this\<close> compares identities.
\<close>

record TokenizerState =
  oid :: nat
  ruleStack :: StateStack
  highlighter :: href

text \<open>What the host may pass to \<open>equals\<close> as \<open>other\<close>.\<close>

datatype IState = Undefined | Null | ForeignState nat | TokState TokenizerState

definition equals :: "TokenizerState \<Rightarrow> IState \<Rightarrow> bool" where
  "equals this other =
     (case other of
        Undefined \<Rightarrow> False
      | Null \<Rightarrow> False
      | ForeignState _ \<Rightarrow> False
      | TokState t \<Rightarrow>
          if oid t \<noteq> oid this \<or> ruleStack t \<noteq> ruleStack this then False else True)"

subsection \<open>The state of one bridge and the calls it makes\<close>

record IToken =
  startIndex :: nat
  scopes :: string

record ILineTokens =
  endState :: TokenizerState
  tokens :: "IToken list"

text \<open>
  The calls of the bridge to its collaborators, in the order they are made, together with
  the construction of the color-to-scope map (\<open>new Map\<close> in \<open>tokenize\<close>).
\<close>

datatype event =
    Editor_defineTheme string MonacoTheme
  | Editor_setTheme string
  | Languages_setTokensProvider string
  | Highlighter_getLanguage href string
  | Highlighter_setTheme href "string option"
  | Grammar_tokenizeLine2 string string StateStack nat
  | Console_warn string
  | New_colorToScopeMap

text \<open>
  The closure of \<open>shikiToMonaco\<close> (\<open>themeMap\<close>, \<open>currentTheme\<close>) with the world around it:
  the engines by reference, the languages the host knows, the imported
  \<open>StackElementMetadata.getForeground\<close> and \<open>INITIAL\<close> (parameters: their code is not
  part of this file), the next free object identity and the trace of calls.
  \<open>currentTheme\<close> is \<open>themeIds[0]\<close> at first, which is \<open>undefined\<close> when no theme is loaded.
\<close>

record World =
  engines :: "href \<Rightarrow> ShikiInternal"
  hostLanguages :: "string list"
  getForeground :: "32 word option \<Rightarrow> nat"
  INITIAL :: StateStack
  themeMap :: "string \<rightharpoonup> MonacoTheme"
  currentTheme :: "string option"
  nextObject :: nat
  trace :: "event list"

definition emit :: "event \<Rightarrow> World \<Rightarrow> World" where
  "emit e w = w\<lparr>trace := trace w @ [e]\<rparr>"

text \<open>\<open>new TokenizerState(ruleStack, highlighter)\<close>\<close>

definition new_TokenizerState :: "StateStack \<Rightarrow> href \<Rightarrow> World \<Rightarrow> TokenizerState \<times> World" where
  "new_TokenizerState rs h w =
     (\<lparr>oid = nextObject w, ruleStack = rs, highlighter = h\<rparr>,
      w\<lparr>nextObject := Suc (nextObject w)\<rparr>)"

definition clone :: "TokenizerState \<Rightarrow> World \<Rightarrow> TokenizerState \<times> World" where
  "clone this w = new_TokenizerState (ruleStack this) (highlighter this) w"

text \<open>An object of this world: its identity has been given out by \<open>new\<close>.\<close>

definition allocated :: "World \<Rightarrow> TokenizerState \<Rightarrow> bool" where
  "allocated w s \<longleftrightarrow> oid s < nextObject w"

text \<open>
  Modelled from the spec: the engine's set-active-theme operation
  (\<open>highlighter.setTheme\<close>), whose code is not part of this file. It makes the identifier
  the engine's active theme and returns the resolved color table.
\<close>

definition highlighter_setTheme :: "href \<Rightarrow> string option \<Rightarrow> World \<Rightarrow> string list \<times> World" where
  "highlighter_setTheme h theme w =
     (let eng = engines w h;
          w1 = emit (Highlighter_setTheme h theme) w
      in (resolvedColorMap eng theme,
          w1\<lparr>engines := (engines w1)(h := eng\<lparr>activeTheme := theme\<rparr>)\<rparr>))"

text \<open>
  \<open>grammar.tokenizeLine2(line, ruleStack, timeLimit)\<close> on the grammar of \<open>lang\<close>: the
  grammar interpreter is external, its result is a parameter of the model.
\<close>

definition tokenizeLine2 ::
  "href \<Rightarrow> string \<Rightarrow> string \<Rightarrow> StateStack \<Rightarrow> nat \<Rightarrow> World \<Rightarrow> ITokenizeLineResult2 \<times> World"
where
  "tokenizeLine2 h lang line rs limit w =
     (let eng = engines w h
      in (getLanguage eng lang (activeTheme eng) line rs limit,
          emit (Grammar_tokenizeLine2 lang line rs limit) w))"

subsection \<open>The hijacked monaco.editor.setTheme\<close>

text \<open>
  \<open>_setTheme\<close>, the host's own behaviour bound before the hijack: external, recorded as a
  call.
\<close>

definition editor_setTheme_bound :: "string \<Rightarrow> World \<Rightarrow> World" where
  "editor_setTheme_bound theme w = emit (Editor_setTheme theme) w"

definition editor_setTheme :: "string \<Rightarrow> World \<Rightarrow> World" where
  "editor_setTheme theme w =
     (let w1 = editor_setTheme_bound theme w
      in w1\<lparr>currentTheme := Some theme\<rparr>)"

subsection \<open>The tokens provider\<close>

definition tokenizeMaxLineLength :: nat where
  "tokenizeMaxLineLength = 20000"

definition tokenizeTimeLimit :: nat where
  "tokenizeTimeLimit = 500"

definition getInitialState :: "href \<Rightarrow> World \<Rightarrow> TokenizerState \<times> World" where
  "getInitialState h w = new_TokenizerState (INITIAL w) h w"

text \<open>
  The color-to-scope map: \<open>theme.rules.forEach\<close> sets a rule's token under its normalized
  foreground when that color is truthy and not yet a key.
\<close>

definition set_rule :: "(string \<rightharpoonup> string) \<Rightarrow> ITokenThemeRule \<Rightarrow> (string \<rightharpoonup> string)" where
  "set_rule m rule =
     (case normalizeColor (foreground rule) of
        None \<Rightarrow> m
      | Some c \<Rightarrow> if c \<noteq> [] \<and> m c = None then m(c \<mapsto> token rule) else m)"

definition colorToScopeMap_of :: "ITokenThemeRule list \<Rightarrow> (string \<rightharpoonup> string)" where
  "colorToScopeMap_of rs = foldl set_rule Map.empty rs"

definition findScopeByColor :: "(string \<rightharpoonup> string) \<Rightarrow> string \<Rightarrow> string option" where
  "findScopeByColor colorToScopeMap color = colorToScopeMap color"

text \<open>\<open>findScopeByColor(color) || ''\<close>\<close>

definition scope_or_empty :: "(string \<rightharpoonup> string) \<Rightarrow> string \<Rightarrow> string" where
  "scope_or_empty colorToScopeMap color =
     (case findScopeByColor colorToScopeMap color of None \<Rightarrow> [] | Some s \<Rightarrow> s)"

text \<open>\<open>colorMap[i] || ''\<close>: an index out of range reads \<open>undefined\<close>.\<close>

definition colorMap_at :: "string list \<Rightarrow> nat \<Rightarrow> string" where
  "colorMap_at colorMap i = (if i < length colorMap then colorMap ! i else [])"

text \<open>
  The loop \<open>for (let j = 0; j < tokensLength; j++)\<close> with
  \<open>tokensLength = result.tokens.length / 2\<close>, a fraction when the length is odd: then the
  last metadata read is out of range and \<open>undefined\<close>.
\<close>

function token_loop ::
  "32 word list \<Rightarrow> string list \<Rightarrow> (string \<rightharpoonup> string) \<Rightarrow> (32 word option \<Rightarrow> nat) \<Rightarrow> nat \<Rightarrow>
   IToken list \<Rightarrow> IToken list"
where
  "token_loop rt colorMap m gf j toks =
     (if 2 * j < length rt then
        let start = unat (rt ! (2 * j));
            metadata = (if 2 * j + 1 < length rt then Some (rt ! (2 * j + 1)) else None);
            color = normalizeColor_str (colorMap_at colorMap (gf metadata));
            scope = scope_or_empty m color
        in token_loop rt colorMap m gf (Suc j) (toks @ [\<lparr>startIndex = start, scopes = scope\<rparr>])
      else toks)"
  by pat_completeness auto
termination
  by (relation "measure (\<lambda>(rt, colorMap, m, gf, j, toks). length rt - 2 * j)") auto

declare token_loop.simps [simp del]

text \<open>
  \<open>tokenize(line, state)\<close> of the provider registered for \<open>lang\<close>. The result is the
  returned value, or the error raised, with the world after the call.
  \<open>themeMap.get(currentTheme)\<close> is \<open>undefined\<close> for an identifier that is not a key, and
  \<open>theme!.rules\<close> raises on it.
\<close>

definition tokenize ::
  "string \<Rightarrow> string \<Rightarrow> TokenizerState \<Rightarrow> World \<Rightarrow> (error + ILineTokens) \<times> World"
where
  "tokenize lang line state w =
     (if length line \<ge> tokenizeMaxLineLength then
        (Inr \<lparr>endState = state, tokens = [\<lparr>startIndex = 0, scopes = []\<rparr>]\<rparr>, w)
      else
        let h = highlighter state;
            w1 = emit (Highlighter_getLanguage h lang) w;
            (colorMap, w2) = highlighter_setTheme h (currentTheme w1) w1;
            theme = (case currentTheme w2 of None \<Rightarrow> None | Some t \<Rightarrow> themeMap w2 t);
            (result, w3) = tokenizeLine2 h lang line (ruleStack state) tokenizeTimeLimit w2;
            w4 = (if r_stoppedEarly result
                  then emit (Console_warn (''Time limit reached when tokenizing line: '' @ take 100 line)) w3
                  else w3);
            w5 = emit New_colorToScopeMap w4
        in case theme of
             None \<Rightarrow> (Inl TypeError, w5)
           | Some th \<Rightarrow>
               let colorToScopeMap = colorToScopeMap_of (rules th);
                   toks = token_loop (r_tokens result) colorMap colorToScopeMap (getForeground w5) 0 [];
                   (st, w6) = new_TokenizerState (r_ruleStack result) h w5
               in (Inr \<lparr>endState = st, tokens = toks\<rparr>, w6))"

subsection \<open>shikiToMonaco\<close>

text \<open>
  The first loop converts every loaded theme, keeps it in \<open>themeMap\<close> and defines it at the
  host; an error raised by the converter ends the registration.
\<close>

fun define_themes :: "href \<Rightarrow> string list \<Rightarrow> World \<Rightarrow> error option \<times> World" where
  "define_themes h [] w = (None, w)"
| "define_themes h (themeId # themeIds) w =
     (case textmateThemeToMonacoTheme (getTheme (engines w h) themeId) of
        Inl err \<Rightarrow> (Some err, w)
      | Inr monacoTheme \<Rightarrow>
          define_themes h themeIds
            (emit (Editor_defineTheme themeId monacoTheme)
               (w\<lparr>themeMap := (themeMap w)(themeId \<mapsto> monacoTheme)\<rparr>)))"

text \<open>
  The second loop registers a tokens provider for every loaded language the host knows.
\<close>

fun set_providers :: "string list \<Rightarrow> World \<Rightarrow> World" where
  "set_providers [] w = w"
| "set_providers (lang # langs) w =
     set_providers langs
       (if lang \<in> set (hostLanguages w) then emit (Languages_setTokensProvider lang) w else w)"

definition shikiToMonaco :: "href \<Rightarrow> World \<Rightarrow> error option \<times> World" where
  "shikiToMonaco h w =
     (let themeIds = getLoadedThemes (engines w h)
      in case define_themes h themeIds (w\<lparr>themeMap := Map.empty\<rparr>) of
           (Some err, w1) \<Rightarrow> (Some err, w1)
         | (None, w1) \<Rightarrow>
             let w2 = w1\<lparr>currentTheme := (case themeIds of [] \<Rightarrow> None | t # _ \<Rightarrow> Some t)\<rparr>
             in (None, set_providers (getLoadedLanguages (engines w2 h)) w2))"

subsection \<open>Notions used to state the properties\<close>

text \<open>
  What the grammar interpreter returns to a \<open>tokenize\<close> call made in world \<open>w\<close>: the
  engine of the state has been given the current theme before the grammar runs.
\<close>

definition interpreter_result ::
  "string \<Rightarrow> string \<Rightarrow> TokenizerState \<Rightarrow> World \<Rightarrow> ITokenizeLineResult2"
where
  "interpreter_result lang line state w =
     getLanguage (engines w (highlighter state)) lang (currentTheme w) line (ruleStack state)
       tokenizeTimeLimit"

text \<open>The host-form theme registered for the current theme, if there is one.\<close>

definition registered_theme :: "World \<Rightarrow> MonacoTheme option" where
  "registered_theme w = (case currentTheme w of None \<Rightarrow> None | Some t \<Rightarrow> themeMap w t)"

text \<open>Counting, in a trace, the constructions of a color-to-scope map.\<close>

definition index_builds :: "event list \<Rightarrow> nat" where
  "index_builds tr = length (filter (\<lambda>e. e = New_colorToScopeMap) tr)"

text \<open>Counting the calls of the engine's set-active-theme operation.\<close>

fun is_setTheme_call :: "href \<Rightarrow> event \<Rightarrow> bool" where
  "is_setTheme_call h (Highlighter_setTheme h' t) = (h' = h)"
| "is_setTheme_call h _ = False"

definition setTheme_calls :: "href \<Rightarrow> event list \<Rightarrow> nat" where
  "setTheme_calls h tr = length (filter (is_setTheme_call h) tr)"

text \<open>
  The rules of one scope-settings entry in the words of the specification: one rule for
  every scope of the entry that is a non-empty string, when the entry has a non-empty
  foreground; none otherwise.
\<close>

definition entry_rules :: "IRawThemeSetting \<Rightarrow> ITokenThemeRule list" where
  "entry_rules e =
     (case settings e of
        Some (Settings (Some f)) \<Rightarrow>
          if f = [] then []
          else map (\<lambda>t. \<lparr>token = t, foreground = normalizeColor (Some f)\<rparr>)
                 (filter (\<lambda>t. t \<noteq> []) (List.map_filter id (scopes_of (scope e))))
      | _ \<Rightarrow> [])"

text \<open>
  An entry the converter can read: it carries a \<open>settings\<close> object, or its scope array is
  empty (then \<open>settings\<close> is never read).
\<close>

definition readable_entry :: "IRawThemeSetting \<Rightarrow> bool" where
  "readable_entry e \<longleftrightarrow> settings e \<noteq> None \<or> scopes_of (scope e) = []"

text \<open>
  A theme the converter can read: it carries pre-resolved rules, or a settings list (or,
  failing that, a \<open>tokenColors\<close> list) of readable entries.
\<close>

definition readable_theme :: "ThemeRegistrationResolved \<Rightarrow> bool" where
  "readable_theme theme \<longleftrightarrow>
     theme_rules theme \<noteq> None \<or>
     (case themeSettings_of theme of None \<Rightarrow> False | Some es \<Rightarrow> list_all readable_entry es)"

text \<open>
  The host-form theme with a given rule table, in the words of the specification: the
  base is the light one when the source theme declares itself light, else the dark one;
  inheritance is disabled; every named color is normalized and prefixed with the marker.
\<close>

definition host_form :: "ThemeRegistrationResolved \<Rightarrow> ITokenThemeRule list \<Rightarrow> MonacoTheme" where
  "host_form theme rs =
     \<lparr>base = (if theme_type theme = ''light'' then ''vs'' else ''vs-dark''),
      inherit = False,
      colors = map (\<lambda>(key, v). (key, CHR ''#'' # normalizeColor_str v))
                 (case theme_colors theme of None \<Rightarrow> [] | Some cs \<Rightarrow> cs),
      rules = rs\<rparr>"

subsection \<open>A concrete bridge\<close>

text \<open>
  Two loaded themes, \<open>light\<close> with pre-resolved rules and \<open>dark\<close> with scope-settings
  entries, and one language \<open>L\<close> whose grammar returns one token spanning the line, with
  metadata whose foreground is the color of index 1; it reports an early stop on lines
  longer than five units.
\<close>

definition example_dark :: ThemeRegistrationResolved where
  "example_dark =
     \<lparr>theme_rules = None,
      theme_settings =
        Some [\<lparr>scope = ScopeArray [''comment'', []], settings = Some (Settings (Some ''#6A9955''))\<rparr>,
              \<lparr>scope = ScopeString ''keyword'', settings = Some (Settings None)\<rparr>,
              \<lparr>scope = ScopeUndefined, settings = Some (Settings (Some ''#fff''))\<rparr>,
              \<lparr>scope = ScopeString ''note'', settings = Some (Settings (Some ''#6a9955''))\<rparr>],
      theme_tokenColors = None,
      theme_colors = Some [(''editor.background'', ''#1E1E1E'')],
      theme_type = ''dark''\<rparr>"

definition example_light :: ThemeRegistrationResolved where
  "example_light =
     \<lparr>theme_rules = Some [\<lparr>token = ''string'', foreground = Some ''6a9955''\<rparr>],
      theme_settings = None,
      theme_tokenColors = None,
      theme_colors = None,
      theme_type = ''light''\<rparr>"

definition example_grammar :: "string \<Rightarrow> string option \<Rightarrow> Grammar" where
  "example_grammar lang active line rs limit =
     \<lparr>r_tokens = [0, 32768], r_ruleStack = Suc rs, r_stoppedEarly = (limit < 100 * length line)\<rparr>"

definition example_engine :: ShikiInternal where
  "example_engine =
     \<lparr>getLoadedThemes = [''light'', ''dark''],
      getLoadedLanguages = [''L''],
      getTheme = (\<lambda>themeId. if themeId = ''dark'' then example_dark else example_light),
      getLanguage = example_grammar,
      resolvedColorMap = (\<lambda>theme. [[], ''#6A9955'']),
      activeTheme = None\<rparr>"

definition example_getForeground :: "32 word option \<Rightarrow> nat" where
  "example_getForeground metadata =
     (case metadata of None \<Rightarrow> 0 | Some m \<Rightarrow> unat (drop_bit 15 (m AND 0xFF8000)))"

definition example_host :: World where
  "example_host =
     \<lparr>engines = (\<lambda>h. example_engine),
      hostLanguages = [''L''],
      getForeground = example_getForeground,
      INITIAL = 0,
      themeMap = Map.empty,
      currentTheme = None,
      nextObject = 0,
      trace = []\<rparr>"

text \<open>The bridge after \<open>shikiToMonaco\<close>, and the initial state of a document.\<close>

definition example_world :: World where
  "example_world = snd (getInitialState 0 (snd (shikiToMonaco 0 example_host)))"

definition example_state :: TokenizerState where
  "example_state = fst (getInitialState 0 (snd (shikiToMonaco 0 example_host)))"

text \<open>
  The same bridge after a third theme, \<open>late\<close>, has been loaded into the engine: the
  engine lists it, while \<open>themeMap\<close>, filled by \<open>shikiToMonaco\<close> before, has no entry
  for it.
\<close>

definition example_late_world :: World where
  "example_late_world =
     example_world
       \<lparr>engines := (\<lambda>h. (engines example_world h)
                            \<lparr>getLoadedThemes := [''light'', ''dark'', ''late'']\<rparr>)\<rparr>"

section \<open>The Color Normalizer\<close>

lemma toLowerCase_unit_idem: "toLowerCase_unit (toLowerCase_unit c) = toLowerCase_unit c"
  by (auto simp: toLowerCase_unit_def Let_def)

lemma toLowerCase_idem: "toLowerCase (toLowerCase s) = toLowerCase s"
  by (simp add: toLowerCase_def toLowerCase_unit_idem)

lemma of_char_toLowerCase_unit:
  "(of_char (toLowerCase_unit c) :: nat) =
     (let n = of_char c in
      if (65 \<le> n \<and> n \<le> 90) \<or> (192 \<le> n \<and> n \<le> 222 \<and> n \<noteq> 215) then n + 32 else n)"
  by (auto simp: toLowerCase_unit_def Let_def)

lemma toLowerCase_unit_hash: "toLowerCase_unit c = CHR ''#'' \<longleftrightarrow> c = CHR ''#''"
proof
  assume h: "toLowerCase_unit c = CHR ''#''"
  have "(of_char (toLowerCase_unit c) :: nat) = 35"
    by (simp add: h)
  then have "(of_char c :: nat) = 35"
    by (auto simp: of_char_toLowerCase_unit Let_def split: if_splits)
  then have "(of_char c :: nat) = of_char (CHR ''#'')"
    by simp
  then show "c = CHR ''#''"
    by (simp only: of_char_eq_iff)
next
  assume "c = CHR ''#''"
  then show "toLowerCase_unit c = CHR ''#''"
    by (simp add: toLowerCase_unit_def)
qed

lemma hash_in_toLowerCase: "CHR ''#'' \<in> set (toLowerCase s) \<longleftrightarrow> CHR ''#'' \<in> set s"
proof (induction s)
  case Nil
  show ?case by (simp add: toLowerCase_def)
next
  case (Cons c cs)
  have "CHR ''#'' = toLowerCase_unit c \<longleftrightarrow> CHR ''#'' = c"
    using toLowerCase_unit_hash [of c] by metis
  with Cons show ?case
    by (simp add: toLowerCase_def)
qed

lemma replace_absent: "p \<notin> set s \<Longrightarrow> replace s p r = s"
  by (induction s) auto

lemma replace_is_remove1: "replace s p [] = remove1 p s"
  by (induction s) auto

lemma replace_leading:
  "CHR ''#'' \<notin> set (tl s) \<Longrightarrow> replace s (CHR ''#'') [] = strip_leading_marker s"
  by (cases s) (auto simp: strip_leading_marker_def replace_absent)

lemma length_split_map_join: "length (split_map_join s) = 2 * length s"
  by (induction s) (auto simp: split_map_join_def)

lemma set_split_map_join: "set (split_map_join s) = set s"
  by (induction s) (auto simp: split_map_join_def)

lemma toLowerCase_split_map_join:
  "toLowerCase (split_map_join s) = split_map_join (toLowerCase s)"
  by (induction s) (auto simp: split_map_join_def toLowerCase_def)

lemma strip_leading_marker_no_hash:
  "CHR ''#'' \<notin> set (tl s) \<Longrightarrow> CHR ''#'' \<notin> set (strip_leading_marker s)"
  by (cases s) (auto simp: strip_leading_marker_def)

lemma normalizeColor_present: "normalizeColor (Some s) \<noteq> None"
  by (simp add: normalizeColor_def Let_def)

lemma normalizeColor_str_eq: "normalizeColor (Some s) = Some (normalizeColor_str s)"
  using normalizeColor_present [of s] by (auto simp: normalizeColor_str_def)

lemma normalizeColor_remove1:
  "normalizeColor (Some s) =
     Some (let c = toLowerCase (remove1 (CHR ''#'') s)
           in if length c = 3 \<or> length c = 4 then split_map_join c else c)"
  by (cases "s = []") (simp_all add: normalizeColor_def Let_def replace_is_remove1 toLowerCase_def)

lemma normalizeColor_fixes_normalized:
  "normalized_form s \<Longrightarrow> normalizeColor (Some s) = Some s"
  by (simp add: normalized_form_def normalizeColor_def Let_def replace_absent)

lemma normalizeColor_eq_spec:
  assumes "CHR ''#'' \<notin> set (tl s)"
  shows "normalizeColor (Some s) = normalizeColor_spec (Some s)"
proof (cases "s = []")
  case True
  then show ?thesis
    by (simp add: normalizeColor_def normalizeColor_spec_def strip_leading_marker_def
        toLowerCase_def)
next
  case False
  from assms have "replace s (CHR ''#'') [] = strip_leading_marker s"
    by (rule replace_leading)
  with False show ?thesis
    by (simp add: normalizeColor_def normalizeColor_spec_def Let_def)
qed

lemma normalizeColor_output_lower:
  assumes "CHR ''#'' \<notin> set (tl s)" and "normalizeColor (Some s) = Some c"
  shows "toLowerCase c = c \<and> CHR ''#'' \<notin> set c"
proof (cases "s = []")
  case True
  with assms show ?thesis by (auto simp: normalizeColor_def toLowerCase_def)
next
  case False
  let ?d = "toLowerCase (strip_leading_marker s)"
  have d: "toLowerCase ?d = ?d \<and> CHR ''#'' \<notin> set ?d"
    using assms(1) by (simp add: toLowerCase_idem hash_in_toLowerCase strip_leading_marker_no_hash)
  have "c = (if length ?d = 3 \<or> length ?d = 4 then split_map_join ?d else ?d)"
    using assms False by (simp add: normalizeColor_def Let_def replace_leading)
  with d show ?thesis
    by (auto simp: toLowerCase_split_map_join set_split_map_join)
qed

lemma normalizeColor_output_length:
  assumes "normalizeColor (Some s) = Some c"
  shows "length c \<noteq> 3 \<and> length c \<noteq> 4"
proof (cases "s = []")
  case True
  with assms show ?thesis by (auto simp: normalizeColor_def)
next
  case False
  let ?d = "toLowerCase (replace s (CHR ''#'') [])"
  have "c = (if length ?d = 3 \<or> length ?d = 4 then split_map_join ?d else ?d)"
    using assms False by (simp add: normalizeColor_def Let_def)
  then show ?thesis
    by (auto simp: length_split_map_join)
qed

lemma normalizeColor_idem:
  assumes "CHR ''#'' \<notin> set (tl s)"
  shows "normalizeColor (normalizeColor (Some s)) = normalizeColor (Some s)"
proof -
  obtain c where c: "normalizeColor (Some s) = Some c"
    using normalizeColor_present [of s] by blast
  have "normalized_form c"
    using normalizeColor_output_lower [OF assms c] normalizeColor_output_length [OF c]
    by (simp add: normalized_form_def)
  then show ?thesis
    by (simp add: c normalizeColor_fixes_normalized)
qed

text \<open>
  C4, as the source has it. The normalizer returns every string in normalized form
  unchanged; \<open>#FFF\<close> and \<open>ffffff\<close> normalize to the same string; an absent value stays
  absent. On a present string it removes the first occurrence of the marker \<open>#\<close>, wherever
  that stands, lowercases, and doubles each unit of a result of length 3 or 4 (to 6 or 8).
  So on every string with no marker after its first position it does what the
  specification says (strip the leading marker, lowercase, expand), and normalizing its
  output again changes nothing.
\<close>

theorem normalizeColor_contract:
  "normalizeColor None = None \<and>
   normalizeColor (Some ''#FFF'') = normalizeColor (Some ''ffffff'') \<and>
   (normalized_form s \<longrightarrow> normalizeColor (Some s) = Some s) \<and>
   normalizeColor (Some t) =
     Some (let c = toLowerCase (remove1 (CHR ''#'') t)
           in if length c = 3 \<or> length c = 4 then split_map_join c else c) \<and>
   (CHR ''#'' \<notin> set (tl t) \<longrightarrow>
      normalizeColor (Some t) = normalizeColor_spec (Some t) \<and>
      normalizeColor (normalizeColor (Some t)) = normalizeColor (Some t))"
proof -
  have a: "normalizeColor None = None"
    by (simp add: normalizeColor_def)
  have b: "normalizeColor (Some ''#FFF'') = normalizeColor (Some ''ffffff'')"
    by code_simp
  show ?thesis
    using a b normalizeColor_fixes_normalized [of s] normalizeColor_remove1 [of t]
      normalizeColor_eq_spec [of t] normalizeColor_idem [of t]
    by blast
qed

theorem normalizeColor_contract_witness:
  "normalized_form ''6a9955'' \<and> normalizeColor (Some ''6a9955'') = Some ''6a9955'' \<and>
   CHR ''#'' \<notin> set (tl ''#FFF'') \<and>
   normalizeColor (Some ''#FFF'') = normalizeColor_spec (Some ''#FFF'') \<and>
   normalizeColor (normalizeColor (Some ''#FFF'')) = normalizeColor (Some ''#FFF'')"
proof -
  have h1: "normalized_form ''6a9955''"
    by code_simp
  have h2: "CHR ''#'' \<notin> set (tl ''#FFF'')"
    by simp
  show ?thesis
    using h1 h2 normalizeColor_contract [of "''6a9955''" "''#FFF''"]
    by blast
qed

text \<open>
  The claim as stated fails where a marker stands after the first position: on \<open>ab#\<close>
  the source removes the marker and returns \<open>ab\<close>, while stripping a leading marker
  leaves three units to expand; and the output \<open>##aabbcc\<close> of the normalizer on
  \<open>##abc\<close> is not returned unchanged.
\<close>

theorem normalizeColor_leading_marker_counterexample:
  "normalizeColor (Some ''ab#'') = Some ''ab'' \<and>
   normalizeColor_spec (Some ''ab#'') = Some ''aabb##'' \<and>
   normalizeColor (Some ''ab#'') \<noteq> normalizeColor_spec (Some ''ab#'') \<and>
   normalizeColor (Some ''##abc'') = Some ''##aabbcc'' \<and>
   normalizeColor (Some ''##aabbcc'') = Some ''#aabbcc'' \<and>
   normalizeColor (normalizeColor (Some ''##abc'')) \<noteq> normalizeColor (Some ''##abc'')"
  by code_simp

section \<open>Line State\<close>

lemma allocated_new:
  "allocated (snd (new_TokenizerState rs h w)) (fst (new_TokenizerState rs h w))"
  by (simp add: allocated_def new_TokenizerState_def)

lemma allocated_new_mono:
  "allocated w s \<Longrightarrow> allocated (snd (new_TokenizerState rs h w)) s"
  by (simp add: allocated_def new_TokenizerState_def)

lemma allocated_getInitialState:
  "allocated (snd (getInitialState h w)) (fst (getInitialState h w))"
  by (simp add: getInitialState_def allocated_new)

lemma new_is_fresh:
  "allocated w s \<Longrightarrow> oid (fst (new_TokenizerState rs h w)) \<noteq> oid s"
  by (simp add: allocated_def new_TokenizerState_def)

text \<open>
  C8. \<open>s.equals(t)\<close> holds exactly when \<open>t\<close> is the object \<open>s\<close> itself and carries the
  same stack handle; anything that is not a \<open>TokenizerState\<close> is unequal, and so is a
  state with the same contents and another identity: the comparison is never structural.
\<close>

theorem equals_is_reference_identity:
  "equals s (TokState t) = (oid t = oid s \<and> ruleStack t = ruleStack s) \<and>
   \<not> equals s (TokState (s\<lparr>oid := Suc (oid s)\<rparr>)) \<and>
   \<not> equals s Undefined \<and> \<not> equals s Null \<and> \<not> equals s (ForeignState n)"
  by (simp add: equals_def)

theorem equals_is_reference_identity_witness:
  "equals example_state (TokState example_state) \<and>
   \<not> equals example_state (TokState (example_state\<lparr>oid := Suc (oid example_state)\<rparr>))"
  using equals_is_reference_identity [of example_state example_state]
  by blast

text \<open>
  C9. The clone of a state of this world is another object with the same stack handle
  and the same highlighter reference, and it is not equal to its original, in either
  direction.
\<close>

theorem clone_is_never_equal:
  "allocated w s \<Longrightarrow>
     oid (fst (clone s w)) \<noteq> oid s \<and>
     ruleStack (fst (clone s w)) = ruleStack s \<and>
     highlighter (fst (clone s w)) = highlighter s \<and>
     \<not> equals (fst (clone s w)) (TokState s) \<and>
     \<not> equals s (TokState (fst (clone s w))) \<and>
     allocated (snd (clone s w)) (fst (clone s w)) \<and>
     allocated (snd (clone s w)) s"
  by (simp add: clone_def new_TokenizerState_def allocated_def equals_def)

theorem clone_is_never_equal_witness:
  "allocated example_world example_state \<and>
   oid (fst (clone example_state example_world)) \<noteq> oid example_state \<and>
   ruleStack (fst (clone example_state example_world)) = ruleStack example_state \<and>
   highlighter (fst (clone example_state example_world)) = highlighter example_state \<and>
   \<not> equals (fst (clone example_state example_world)) (TokState example_state)"
proof -
  have h: "allocated example_world example_state"
    unfolding example_world_def example_state_def by (rule allocated_getInitialState)
  show ?thesis
    using h clone_is_never_equal [OF h] by blast
qed

section \<open>The tokens provider\<close>

subsection \<open>What one call of tokenize does\<close>

lemma tokenize_long:
  "tokenizeMaxLineLength \<le> length line \<Longrightarrow>
   tokenize lang line state w =
     (Inr \<lparr>endState = state, tokens = [\<lparr>startIndex = 0, scopes = []\<rparr>]\<rparr>, w)"
  by (simp add: tokenize_def)

lemma tokenize_short_trace:
  "length line < tokenizeMaxLineLength \<Longrightarrow>
   trace (snd (tokenize lang line state w)) =
     trace w @
     [Highlighter_getLanguage (highlighter state) lang,
      Highlighter_setTheme (highlighter state) (currentTheme w),
      Grammar_tokenizeLine2 lang line (ruleStack state) tokenizeTimeLimit] @
     (if r_stoppedEarly (interpreter_result lang line state w)
      then [Console_warn (''Time limit reached when tokenizing line: '' @ take 100 line)]
      else []) @
     [New_colorToScopeMap]"
  by (simp add: tokenize_def Let_def split_def highlighter_setTheme_def tokenizeLine2_def emit_def
      new_TokenizerState_def interpreter_result_def split: option.split)

lemma tokenize_short_engines:
  "length line < tokenizeMaxLineLength \<Longrightarrow>
   engines (snd (tokenize lang line state w)) =
     (engines w)(highlighter state :=
        (engines w (highlighter state))\<lparr>activeTheme := currentTheme w\<rparr>)"
  by (simp add: tokenize_def Let_def split_def highlighter_setTheme_def tokenizeLine2_def emit_def
      new_TokenizerState_def split: option.split)

lemma tokenize_short_unregistered:
  "length line < tokenizeMaxLineLength \<Longrightarrow> registered_theme w = None \<Longrightarrow>
   fst (tokenize lang line state w) = Inl TypeError"
  by (auto simp: tokenize_def Let_def split_def highlighter_setTheme_def tokenizeLine2_def
      emit_def new_TokenizerState_def registered_theme_def split: option.splits)

lemma tokenize_short_registered:
  "length line < tokenizeMaxLineLength \<Longrightarrow> registered_theme w = Some th \<Longrightarrow>
   fst (tokenize lang line state w) =
     Inr \<lparr>endState = \<lparr>oid = nextObject w,
                       ruleStack = r_ruleStack (interpreter_result lang line state w),
                       highlighter = highlighter state\<rparr>,
          tokens = token_loop (r_tokens (interpreter_result lang line state w))
                     (resolvedColorMap (engines w (highlighter state)) (currentTheme w))
                     (colorToScopeMap_of (rules th)) (getForeground w) 0 []\<rparr>"
  by (auto simp: tokenize_def Let_def split_def highlighter_setTheme_def tokenizeLine2_def
      emit_def new_TokenizerState_def registered_theme_def interpreter_result_def
      split: option.splits)

lemma tokenize_frame:
  "themeMap (snd (tokenize lang line state w)) = themeMap w \<and>
   currentTheme (snd (tokenize lang line state w)) = currentTheme w \<and>
   getForeground (snd (tokenize lang line state w)) = getForeground w"
  by (simp add: tokenize_def Let_def split_def highlighter_setTheme_def tokenizeLine2_def emit_def
      new_TokenizerState_def split: option.split)

lemma tokenize_nextObject:
  "nextObject w \<le> nextObject (snd (tokenize lang line state w))"
  by (simp add: tokenize_def Let_def split_def highlighter_setTheme_def tokenizeLine2_def emit_def
      new_TokenizerState_def split: option.split)

lemma tokenize_keeps_allocated:
  "allocated w s \<Longrightarrow> allocated (snd (tokenize lang line state w)) s"
  using tokenize_nextObject [of w lang line state] by (simp add: allocated_def)

lemma length_token_loop:
  "length (token_loop rt colorMap m gf j toks) = length toks + ((length rt + 1) div 2 - j)"
proof (induction rt colorMap m gf j toks rule: token_loop.induct)
  case (1 rt colorMap m gf j toks)
  show ?case
  proof (cases "2 * j < length rt")
    case True
    then have "length (token_loop rt colorMap m gf j toks) =
                 Suc (length toks) + ((length rt + 1) div 2 - Suc j)"
      using "1.IH" by (subst token_loop.simps) (simp add: Let_def)
    also have "\<dots> = length toks + ((length rt + 1) div 2 - j)"
      using True by arith
    finally show ?thesis .
  next
    case False
    then have "(length rt + 1) div 2 - j = 0"
      by arith
    with False show ?thesis
      by (subst token_loop.simps) simp
  qed
qed

text \<open>The example bridge: what has been registered.\<close>

lemma example_themeMap_dark:
  "themeMap example_world ''dark'' =
     Some \<lparr>base = ''vs-dark'', inherit = False,
            colors = [(''editor.background'', ''#1e1e1e'')],
            rules = [\<lparr>token = ''comment'', foreground = Some ''6a9955''\<rparr>,
                     \<lparr>token = ''note'', foreground = Some ''6a9955''\<rparr>]\<rparr>"
  by code_simp

lemma example_themeMap_light:
  "themeMap example_world ''light'' =
     Some \<lparr>base = ''vs'', inherit = False, colors = [],
            rules = [\<lparr>token = ''string'', foreground = Some ''6a9955''\<rparr>]\<rparr>"
  by code_simp

lemma example_currentTheme: "currentTheme example_world = Some ''light''"
  by code_simp

lemma example_registered:
  "registered_theme example_world =
     Some \<lparr>base = ''vs'', inherit = False, colors = [],
            rules = [\<lparr>token = ''string'', foreground = Some ''6a9955''\<rparr>]\<rparr>"
  by (simp add: registered_theme_def example_currentTheme example_themeMap_light)

lemma example_state_eq: "example_state = \<lparr>oid = 0, ruleStack = 0, highlighter = 0\<rparr>"
  by code_simp

lemma example_trace:
  "trace example_world =
     [Editor_defineTheme ''light''
        \<lparr>base = ''vs'', inherit = False, colors = [],
           rules = [\<lparr>token = ''string'', foreground = Some ''6a9955''\<rparr>]\<rparr>,
      Editor_defineTheme ''dark''
        \<lparr>base = ''vs-dark'', inherit = False,
           colors = [(''editor.background'', ''#1e1e1e'')],
           rules = [\<lparr>token = ''comment'', foreground = Some ''6a9955''\<rparr>,
                    \<lparr>token = ''note'', foreground = Some ''6a9955''\<rparr>]\<rparr>,
      Languages_setTokensProvider ''L'']"
  by code_simp

lemma example_short_line: "length ''// hi'' < tokenizeMaxLineLength"
  by (simp add: tokenizeMaxLineLength_def)

subsection \<open>The line-length guard\<close>

text \<open>
  C1. On a line of 20000 units or more, \<open>tokenize\<close> returns one token with start index 0
  and the empty scope, and the state object it was given as end state; the world is
  left as it was, so the trace has no new call: the grammar interpreter is not invoked
  (nor is any other collaborator).
\<close>

theorem tokenize_long_line_guard:
  "20000 \<le> length line \<Longrightarrow>
     fst (tokenize lang line state w) =
       Inr \<lparr>endState = state, tokens = [\<lparr>startIndex = 0, scopes = ''''\<rparr>]\<rparr> \<and>
     snd (tokenize lang line state w) = w \<and>
     trace (snd (tokenize lang line state w)) = trace w"
  by (simp add: tokenize_long tokenizeMaxLineLength_def)

theorem tokenize_long_line_guard_witness:
  "20000 \<le> length (replicate 20000 (CHR ''x'')) \<and>
   fst (tokenize ''L'' (replicate 20000 (CHR ''x'')) example_state example_world) =
     Inr \<lparr>endState = example_state, tokens = [\<lparr>startIndex = 0, scopes = ''''\<rparr>]\<rparr> \<and>
   snd (tokenize ''L'' (replicate 20000 (CHR ''x'')) example_state example_world) = example_world"
proof -
  have h: "20000 \<le> length (replicate 20000 (CHR ''x''))"
    by simp
  show ?thesis
    using h tokenize_long_line_guard [OF h, of "''L''" example_state example_world]
    by blast
qed

subsection \<open>The Scope-Color Index\<close>

lemma foldl_set_rule:
  "foldl set_rule m rs c =
     (case m c of
        Some v \<Rightarrow> Some v
      | None \<Rightarrow>
          if c = [] then None
          else map_option token (find (\<lambda>r. normalizeColor (foreground r) = Some c) rs))"
proof (induction rs arbitrary: m)
  case Nil
  show ?case by (simp split: option.split)
next
  case (Cons r rs)
  show ?case
    by (simp add: Cons.IH) (auto simp: set_rule_def split: option.splits)
qed

lemma colorToScopeMap_of_lookup:
  "colorToScopeMap_of rs c =
     (if c = [] then None
      else map_option token (find (\<lambda>r. normalizeColor (foreground r) = Some c) rs))"
  by (simp add: colorToScopeMap_of_def foldl_set_rule)

lemma token_loop_single:
  "token_loop [start, meta] colorMap m gf 0 [] =
     [\<lparr>startIndex = unat start,
       scopes = scope_or_empty m (normalizeColor_str (colorMap_at colorMap (gf (Some meta))))\<rparr>]"
  by (subst token_loop.simps, simp add: Let_def, subst token_loop.simps, simp)

text \<open>
  C2. The index built from a rule list maps a color to the token of the first rule, in
  list order, whose normalized foreground is that color; a rule whose normalized
  foreground is absent or empty is not recorded. For the two rules of the example, the
  lookup of normalized \<open>f00\<close> yields \<open>a\<close>. A color with no entry gives the empty scope,
  in the lookup and in the token emitted for it.
\<close>

theorem scope_color_index_first_wins:
  "findScopeByColor (colorToScopeMap_of rs) c =
     (if c = [] then None
      else map_option token (find (\<lambda>r. normalizeColor (foreground r) = Some c) rs)) \<and>
   findScopeByColor
     (colorToScopeMap_of [\<lparr>token = ''a'', foreground = Some ''f00''\<rparr>,
                          \<lparr>token = ''b'', foreground = Some ''f00''\<rparr>])
     (normalizeColor_str ''f00'') = Some ''a'' \<and>
   (findScopeByColor m c = None \<longrightarrow> scope_or_empty m c = '''') \<and>
   (findScopeByColor m (normalizeColor_str (colorMap_at colorMap (gf (Some meta)))) = None \<longrightarrow>
      token_loop [start, meta] colorMap m gf 0 [] = [\<lparr>startIndex = unat start, scopes = ''''\<rparr>])"
proof -
  have a: "findScopeByColor (colorToScopeMap_of rs) c =
     (if c = [] then None
      else map_option token (find (\<lambda>r. normalizeColor (foreground r) = Some c) rs))"
    by (simp add: findScopeByColor_def colorToScopeMap_of_lookup)
  have n: "normalizeColor_str ''f00'' = ''ff0000''"
    by code_simp
  have f: "normalizeColor (Some ''f00'') = Some ''ff0000''"
    by code_simp
  have b: "findScopeByColor
     (colorToScopeMap_of [\<lparr>token = ''a'', foreground = Some ''f00''\<rparr>,
                          \<lparr>token = ''b'', foreground = Some ''f00''\<rparr>])
     (normalizeColor_str ''f00'') = Some ''a''"
    by (simp add: findScopeByColor_def colorToScopeMap_of_lookup n f)
  have c: "findScopeByColor m c = None \<longrightarrow> scope_or_empty m c = ''''"
    by (simp add: scope_or_empty_def)
  have d: "findScopeByColor m (normalizeColor_str (colorMap_at colorMap (gf (Some meta)))) = None \<longrightarrow>
      token_loop [start, meta] colorMap m gf 0 [] = [\<lparr>startIndex = unat start, scopes = ''''\<rparr>]"
    by (simp add: token_loop_single scope_or_empty_def)
  from a b c d show ?thesis
    by blast
qed

theorem scope_color_index_first_wins_witness:
  "findScopeByColor
     (colorToScopeMap_of [\<lparr>token = ''comment'', foreground = Some ''6a9955''\<rparr>,
                          \<lparr>token = ''note'', foreground = Some ''6a9955''\<rparr>]) ''6a9955'' =
     Some ''comment'' \<and>
   findScopeByColor Map.empty ''6a9955'' = None \<and>
   scope_or_empty Map.empty ''6a9955'' = ''''"
proof -
  have f: "normalizeColor (Some ''6a9955'') = Some ''6a9955''"
    by code_simp
  have e: "findScopeByColor Map.empty ''6a9955'' = None"
    by (simp add: findScopeByColor_def)
  have l: "findScopeByColor
     (colorToScopeMap_of [\<lparr>token = ''comment'', foreground = Some ''6a9955''\<rparr>,
                          \<lparr>token = ''note'', foreground = Some ''6a9955''\<rparr>]) ''6a9955'' =
     Some ''comment''"
    using scope_color_index_first_wins
      [of "[\<lparr>token = ''comment'', foreground = Some ''6a9955''\<rparr>,
            \<lparr>token = ''note'', foreground = Some ''6a9955''\<rparr>]" "''6a9955''"]
    by (simp add: f)
  have s: "scope_or_empty Map.empty ''6a9955'' = ''''"
    using e scope_color_index_first_wins [where m = Map.empty and c = "''6a9955''"] by blast
  from l e s show ?thesis
    by blast
qed

subsection \<open>The active theme\<close>

lemma editor_setTheme_fields:
  "currentTheme (editor_setTheme theme w) = Some theme \<and>
   themeMap (editor_setTheme theme w) = themeMap w \<and>
   engines (editor_setTheme theme w) = engines w \<and>
   getForeground (editor_setTheme theme w) = getForeground w \<and>
   nextObject (editor_setTheme theme w) = nextObject w \<and>
   trace (editor_setTheme theme w) = trace w @ [Editor_setTheme theme]"
  by (simp add: editor_setTheme_def editor_setTheme_bound_def emit_def)

lemma registered_after_setTheme:
  "registered_theme (editor_setTheme theme w) = themeMap w theme"
  by (simp add: registered_theme_def editor_setTheme_fields)

lemma interpreter_result_after_setTheme:
  "interpreter_result lang line state (editor_setTheme theme w) =
     getLanguage (engines w (highlighter state)) lang (Some theme) line (ruleStack state)
       tokenizeTimeLimit"
  by (simp add: interpreter_result_def editor_setTheme_fields)

text \<open>
  C3. The intercepted entry point first calls the host's own \<open>setTheme\<close> and then
  records the identifier, whatever was recorded before. When the identifier has a
  registered host-form theme, the next \<open>tokenize\<close> call (on a line below the ceiling)
  gives the engine that identifier and resolves every scope with the index built from
  that theme's rule table.
\<close>

theorem theme_switch_consistency:
  "themeMap w theme = Some th \<Longrightarrow> length line < 20000 \<Longrightarrow>
     fst (tokenize lang line state (editor_setTheme theme w)) =
       Inr \<lparr>endState =
              \<lparr>oid = nextObject w,
                 ruleStack =
                   r_ruleStack (getLanguage (engines w (highlighter state)) lang (Some theme)
                                  line (ruleStack state) tokenizeTimeLimit),
                 highlighter = highlighter state\<rparr>,
            tokens =
              token_loop
                (r_tokens (getLanguage (engines w (highlighter state)) lang (Some theme)
                             line (ruleStack state) tokenizeTimeLimit))
                (resolvedColorMap (engines w (highlighter state)) (Some theme))
                (colorToScopeMap_of (rules th)) (getForeground w) 0 []\<rparr> \<and>
     editor_setTheme theme (w\<lparr>currentTheme := previous\<rparr>) = editor_setTheme theme w \<and>
     editor_setTheme theme w = (editor_setTheme_bound theme w)\<lparr>currentTheme := Some theme\<rparr> \<and>
     trace (editor_setTheme theme w) = trace w @ [Editor_setTheme theme] \<and>
     currentTheme (editor_setTheme theme w) = Some theme"
proof -
  assume th: "themeMap w theme = Some th" and short: "length line < 20000"
  have s: "length line < tokenizeMaxLineLength"
    using short by (simp add: tokenizeMaxLineLength_def)
  have r: "registered_theme (editor_setTheme theme w) = Some th"
    using th by (simp add: registered_after_setTheme)
  have a: "fst (tokenize lang line state (editor_setTheme theme w)) =
       Inr \<lparr>endState =
              \<lparr>oid = nextObject w,
                 ruleStack =
                   r_ruleStack (getLanguage (engines w (highlighter state)) lang (Some theme)
                                  line (ruleStack state) tokenizeTimeLimit),
                 highlighter = highlighter state\<rparr>,
            tokens =
              token_loop
                (r_tokens (getLanguage (engines w (highlighter state)) lang (Some theme)
                             line (ruleStack state) tokenizeTimeLimit))
                (resolvedColorMap (engines w (highlighter state)) (Some theme))
                (colorToScopeMap_of (rules th)) (getForeground w) 0 []\<rparr>"
    using tokenize_short_registered [OF s r, of lang state]
    by (simp add: interpreter_result_after_setTheme editor_setTheme_fields)
  have b: "editor_setTheme theme (w\<lparr>currentTheme := previous\<rparr>) = editor_setTheme theme w"
    by (simp add: editor_setTheme_def editor_setTheme_bound_def emit_def)
  have c: "editor_setTheme theme w = (editor_setTheme_bound theme w)\<lparr>currentTheme := Some theme\<rparr>"
    by (simp add: editor_setTheme_def)
  from a b c editor_setTheme_fields [of theme w] show ?thesis
    by blast
qed

lemma example_dark_tokens:
  "token_loop
     (r_tokens (getLanguage (engines example_world (highlighter example_state)) ''L''
                  (Some ''dark'') ''// hi'' (ruleStack example_state) tokenizeTimeLimit))
     (resolvedColorMap (engines example_world (highlighter example_state)) (Some ''dark''))
     (colorToScopeMap_of
        [\<lparr>token = ''comment'', foreground = Some ''6a9955''\<rparr>,
         \<lparr>token = ''note'', foreground = Some ''6a9955''\<rparr>])
     (getForeground example_world) 0 [] =
   [\<lparr>startIndex = 0, scopes = ''comment''\<rparr>]"
  by code_simp

theorem theme_switch_consistency_witness:
  "themeMap example_world ''dark'' =
     Some \<lparr>base = ''vs-dark'', inherit = False,
            colors = [(''editor.background'', ''#1e1e1e'')],
            rules = [\<lparr>token = ''comment'', foreground = Some ''6a9955''\<rparr>,
                     \<lparr>token = ''note'', foreground = Some ''6a9955''\<rparr>]\<rparr> \<and>
   length ''// hi'' < 20000 \<and>
   currentTheme example_world = Some ''light'' \<and>
   tokens (projr (fst (tokenize ''L'' ''// hi'' example_state
                         (editor_setTheme ''dark'' example_world)))) =
     [\<lparr>startIndex = 0, scopes = ''comment''\<rparr>]"
proof -
  have h2: "length ''// hi'' < 20000"
    by simp
  have "tokens (projr (fst (tokenize ''L'' ''// hi'' example_state
                         (editor_setTheme ''dark'' example_world)))) =
     [\<lparr>startIndex = 0, scopes = ''comment''\<rparr>]"
    using theme_switch_consistency
            [where lang = "''L''" and state = example_state and previous = None,
             OF example_themeMap_dark h2, THEN conjunct1]
    by (simp add: example_dark_tokens)
  with h2 show ?thesis
    by (simp add: example_themeMap_dark example_currentTheme)
qed

subsection \<open>Early stop\<close>

text \<open>
  With a registered current theme, an early stop does not keep the call from returning:
  the warning is emitted (after the interpreter's call, before the index is built), the
  tokens are made from whatever the interpreter produced, one for each start offset, and
  the end state is a new object of the world, other than the state passed in, that wraps
  the interpreter's stack handle.
\<close>

lemma early_stop_returns_for_registered_theme:
  assumes short: "length line < 20000"
    and early: "r_stoppedEarly (interpreter_result lang line state w)"
    and reg: "registered_theme w = Some th"
    and alloc: "allocated w state"
  shows "trace (snd (tokenize lang line state w)) =
       trace w @
       [Highlighter_getLanguage (highlighter state) lang,
        Highlighter_setTheme (highlighter state) (currentTheme w),
        Grammar_tokenizeLine2 lang line (ruleStack state) 500,
        Console_warn (''Time limit reached when tokenizing line: '' @ take 100 line),
        New_colorToScopeMap] \<and>
     fst (tokenize lang line state w) =
       Inr \<lparr>endState = \<lparr>oid = nextObject w,
                         ruleStack = r_ruleStack (interpreter_result lang line state w),
                         highlighter = highlighter state\<rparr>,
            tokens = token_loop (r_tokens (interpreter_result lang line state w))
                       (resolvedColorMap (engines w (highlighter state)) (currentTheme w))
                       (colorToScopeMap_of (rules th)) (getForeground w) 0 []\<rparr> \<and>
     length (tokens (projr (fst (tokenize lang line state w)))) =
       (length (r_tokens (interpreter_result lang line state w)) + 1) div 2 \<and>
     oid (endState (projr (fst (tokenize lang line state w)))) \<noteq> oid state \<and>
     \<not> equals (endState (projr (fst (tokenize lang line state w)))) (TokState state) \<and>
     allocated (snd (tokenize lang line state w))
       (endState (projr (fst (tokenize lang line state w)))) \<and>
     nextObject (snd (tokenize lang line state w)) = Suc (nextObject w)"
proof -
  have s: "length line < tokenizeMaxLineLength"
    using short by (simp add: tokenizeMaxLineLength_def)
  have a: "trace (snd (tokenize lang line state w)) =
       trace w @
       [Highlighter_getLanguage (highlighter state) lang,
        Highlighter_setTheme (highlighter state) (currentTheme w),
        Grammar_tokenizeLine2 lang line (ruleStack state) 500,
        Console_warn (''Time limit reached when tokenizing line: '' @ take 100 line),
        New_colorToScopeMap]"
    using tokenize_short_trace [OF s, of lang state w] early
    by (simp add: tokenizeTimeLimit_def)
  have n: "nextObject (snd (tokenize lang line state w)) = Suc (nextObject w)"
    using s reg
    by (auto simp: tokenize_def Let_def split_def highlighter_setTheme_def tokenizeLine2_def
        emit_def new_TokenizerState_def registered_theme_def split: option.splits)
  from a n alloc tokenize_short_registered [OF s reg, of lang state] show ?thesis
    by (simp add: length_token_loop allocated_def equals_def)
qed

lemma example_early_stop:
  "r_stoppedEarly (interpreter_result ''L'' ''// hi there'' example_state example_world)"
  by code_simp

text \<open>
  C5. When the interpreter reports an early stop, \<open>tokenize\<close> is to emit the warning and
  still return a token list and a new end state. The source does not do so when the
  current theme identifier has no host-form theme in \<open>themeMap\<close>: with the theme \<open>late\<close>,
  loaded into the engine after \<open>shikiToMonaco\<close> ran and then selected in the editor, the
  interpreter runs and stops early on the line \<open>// hi there\<close>, the warning is emitted,
  and then \<open>theme!.rules\<close> raises: the call returns no token list and no end state.
\<close>

theorem early_stop_then_TypeError:
  "''late'' \<in> set (getLoadedThemes (engines example_late_world (highlighter example_state))) \<and>
   themeMap example_late_world ''late'' = None \<and>
   length ''// hi there'' < 20000 \<and>
   r_stoppedEarly (interpreter_result ''L'' ''// hi there'' example_state
                     (editor_setTheme ''late'' example_late_world)) \<and>
   trace (snd (tokenize ''L'' ''// hi there'' example_state
                 (editor_setTheme ''late'' example_late_world))) =
     trace example_late_world @
     [Editor_setTheme ''late'',
      Highlighter_getLanguage 0 ''L'',
      Highlighter_setTheme 0 (Some ''late''),
      Grammar_tokenizeLine2 ''L'' ''// hi there'' 0 500,
      Console_warn ''Time limit reached when tokenizing line: // hi there'',
      New_colorToScopeMap] \<and>
   fst (tokenize ''L'' ''// hi there'' example_state
          (editor_setTheme ''late'' example_late_world)) = Inl TypeError"
proof -
  have a: "''late'' \<in> set (getLoadedThemes (engines example_late_world (highlighter example_state)))"
    by code_simp
  have b: "themeMap example_late_world ''late'' = None"
    by code_simp
  have c: "length ''// hi there'' < tokenizeMaxLineLength"
    by (simp add: tokenizeMaxLineLength_def)
  have d: "r_stoppedEarly (interpreter_result ''L'' ''// hi there'' example_state
                     (editor_setTheme ''late'' example_late_world))"
    by code_simp
  have h: "highlighter example_state = 0 \<and> ruleStack example_state = 0"
    by (simp add: example_state_eq)
  have e: "trace (snd (tokenize ''L'' ''// hi there'' example_state
                 (editor_setTheme ''late'' example_late_world))) =
     trace example_late_world @
     [Editor_setTheme ''late'',
      Highlighter_getLanguage 0 ''L'',
      Highlighter_setTheme 0 (Some ''late''),
      Grammar_tokenizeLine2 ''L'' ''// hi there'' 0 500,
      Console_warn ''Time limit reached when tokenizing line: // hi there'',
      New_colorToScopeMap]"
    using d by (simp add: tokenize_short_trace [OF c] editor_setTheme_fields h tokenizeTimeLimit_def)
  have f: "fst (tokenize ''L'' ''// hi there'' example_state
          (editor_setTheme ''late'' example_late_world)) = Inl TypeError"
    using b by (simp add: tokenize_short_unregistered [OF c] registered_after_setTheme)
  from a b d e f show ?thesis
    by simp
qed

subsection \<open>No cache for the index\<close>

lemma index_builds_short:
  "length line < tokenizeMaxLineLength \<Longrightarrow>
   index_builds (trace (snd (tokenize lang line state w))) = Suc (index_builds (trace w))"
  by (simp add: tokenize_short_trace index_builds_def)

text \<open>
  C6, as the source has it. Nothing is kept between calls: every \<open>tokenize\<close> call on a
  line below the ceiling constructs one new color-to-scope map, from the rule table of
  the theme that is current at that call, whether or not the theme has changed since the
  call before; a call on a line at or above the ceiling constructs none.
\<close>

theorem index_is_rebuilt_on_every_call:
  "(length line < 20000 \<longrightarrow>
      index_builds (trace (snd (tokenize lang line state w))) = Suc (index_builds (trace w)) \<and>
      (registered_theme w = Some th \<longrightarrow>
         tokens (projr (fst (tokenize lang line state w))) =
           token_loop (r_tokens (interpreter_result lang line state w))
             (resolvedColorMap (engines w (highlighter state)) (currentTheme w))
             (colorToScopeMap_of (rules th)) (getForeground w) 0 [])) \<and>
   (20000 \<le> length line \<longrightarrow>
      index_builds (trace (snd (tokenize lang line state w))) = index_builds (trace w)) \<and>
   currentTheme (snd (tokenize lang line state w)) = currentTheme w \<and>
   themeMap (snd (tokenize lang line state w)) = themeMap w"
proof -
  have a: "length line < 20000 \<longrightarrow>
      index_builds (trace (snd (tokenize lang line state w))) = Suc (index_builds (trace w))"
    using index_builds_short [of line lang state w] by (simp add: tokenizeMaxLineLength_def)
  have b: "length line < 20000 \<longrightarrow> registered_theme w = Some th \<longrightarrow>
         tokens (projr (fst (tokenize lang line state w))) =
           token_loop (r_tokens (interpreter_result lang line state w))
             (resolvedColorMap (engines w (highlighter state)) (currentTheme w))
             (colorToScopeMap_of (rules th)) (getForeground w) 0 []"
    using tokenize_short_registered [of line w th lang state]
    by (simp add: tokenizeMaxLineLength_def)
  have c: "20000 \<le> length line \<longrightarrow>
      index_builds (trace (snd (tokenize lang line state w))) = index_builds (trace w)"
    using tokenize_long [of line lang state w] by (simp add: tokenizeMaxLineLength_def)
  from a b c tokenize_frame [of lang line state w] show ?thesis
    by blast
qed

theorem index_is_rebuilt_on_every_call_witness:
  "length ''// hi'' < 20000 \<and>
   index_builds (trace (snd (tokenize ''L'' ''// hi'' example_state example_world))) =
     Suc (index_builds (trace example_world)) \<and>
   20000 \<le> length (replicate 20000 (CHR ''x'')) \<and>
   index_builds (trace (snd (tokenize ''L'' (replicate 20000 (CHR ''x'')) example_state
                               example_world))) =
     index_builds (trace example_world)"
proof -
  have h1: "length ''// hi'' < 20000"
    by simp
  have h2: "20000 \<le> length (replicate 20000 (CHR ''x''))"
    by simp
  show ?thesis
    using h1 h2
      index_is_rebuilt_on_every_call [of "''// hi''" "''L''" example_state example_world]
      index_is_rebuilt_on_every_call
        [of "replicate 20000 (CHR ''x'')" "''L''" example_state example_world]
    by blast
qed

text \<open>
  The claim as stated fails: with no theme switch at all, two calls in a row construct
  two maps.
\<close>

theorem index_built_twice_counterexample:
  "index_builds (trace example_world) = 0 \<and>
   index_builds (trace (snd (tokenize ''L'' ''// hi'' example_state example_world))) = 1 \<and>
   currentTheme (snd (tokenize ''L'' ''// hi'' example_state example_world)) =
     currentTheme example_world \<and>
   index_builds
     (trace (snd (tokenize ''L'' ''// hi'' example_state
                    (snd (tokenize ''L'' ''// hi'' example_state example_world))))) = 2"
proof -
  have z: "index_builds (trace example_world) = 0"
    by (simp add: example_trace index_builds_def)
  show ?thesis
    by (simp add: index_builds_short [OF example_short_line] z tokenize_frame)
qed

subsection \<open>The engine's active theme\<close>

lemma setTheme_calls_short:
  "length line < tokenizeMaxLineLength \<Longrightarrow>
   setTheme_calls (highlighter state) (trace (snd (tokenize lang line state w))) =
     Suc (setTheme_calls (highlighter state) (trace w))"
  by (simp add: tokenize_short_trace setTheme_calls_def)

text \<open>
  C10. Every \<open>tokenize\<close> call on a line below the ceiling calls the engine's
  set-active-theme operation, once, with the theme identifier recorded at that moment,
  right after asking the engine for the grammar; after the call the engine's active theme
  is that identifier. A second call made right after it, by a state of the same engine,
  calls the operation again although the recorded identifier is the same.
\<close>

theorem tokenize_sets_engine_theme_every_call:
  "length line < 20000 \<Longrightarrow>
     (\<exists>es. trace (snd (tokenize lang line state w)) =
             trace w @ Highlighter_getLanguage (highlighter state) lang
                     # Highlighter_setTheme (highlighter state) (currentTheme w) # es) \<and>
     setTheme_calls (highlighter state) (trace (snd (tokenize lang line state w))) =
       Suc (setTheme_calls (highlighter state) (trace w)) \<and>
     activeTheme (engines (snd (tokenize lang line state w)) (highlighter state)) =
       currentTheme w \<and>
     currentTheme (snd (tokenize lang line state w)) = currentTheme w \<and>
     (length line' < 20000 \<and> highlighter state' = highlighter state \<longrightarrow>
        setTheme_calls (highlighter state)
          (trace (snd (tokenize lang line' state' (snd (tokenize lang line state w))))) =
          Suc (Suc (setTheme_calls (highlighter state) (trace w))))"
proof -
  assume short: "length line < 20000"
  have s: "length line < tokenizeMaxLineLength"
    using short by (simp add: tokenizeMaxLineLength_def)
  have a: "\<exists>es. trace (snd (tokenize lang line state w)) =
             trace w @ Highlighter_getLanguage (highlighter state) lang
                     # Highlighter_setTheme (highlighter state) (currentTheme w) # es"
    by (simp add: tokenize_short_trace [OF s])
  have b: "setTheme_calls (highlighter state) (trace (snd (tokenize lang line state w))) =
       Suc (setTheme_calls (highlighter state) (trace w))"
    by (rule setTheme_calls_short [OF s])
  have c: "activeTheme (engines (snd (tokenize lang line state w)) (highlighter state)) =
       currentTheme w"
    by (simp add: tokenize_short_engines [OF s])
  have d: "length line' < 20000 \<and> highlighter state' = highlighter state \<longrightarrow>
        setTheme_calls (highlighter state)
          (trace (snd (tokenize lang line' state' (snd (tokenize lang line state w))))) =
          Suc (Suc (setTheme_calls (highlighter state) (trace w)))"
  proof
    assume h: "length line' < 20000 \<and> highlighter state' = highlighter state"
    then have s': "length line' < tokenizeMaxLineLength"
      by (simp add: tokenizeMaxLineLength_def)
    show "setTheme_calls (highlighter state)
          (trace (snd (tokenize lang line' state' (snd (tokenize lang line state w))))) =
          Suc (Suc (setTheme_calls (highlighter state) (trace w)))"
      using setTheme_calls_short [OF s', of state' lang "snd (tokenize lang line state w)"] h b
      by simp
  qed
  from a b c d tokenize_frame [of lang line state w] show ?thesis
    by blast
qed

theorem tokenize_sets_engine_theme_every_call_witness:
  "length ''// hi'' < 20000 \<and>
   setTheme_calls (highlighter example_state)
     (trace (snd (tokenize ''L'' ''// hi'' example_state example_world))) =
     Suc (setTheme_calls (highlighter example_state) (trace example_world)) \<and>
   activeTheme (engines (snd (tokenize ''L'' ''// hi'' example_state example_world))
                  (highlighter example_state)) = currentTheme example_world \<and>
   setTheme_calls (highlighter example_state)
     (trace (snd (tokenize ''L'' ''// hi'' example_state
                    (snd (tokenize ''L'' ''// hi'' example_state example_world))))) =
     Suc (Suc (setTheme_calls (highlighter example_state) (trace example_world)))"
proof -
  have h: "length ''// hi'' < 20000"
    by simp
  show ?thesis
    using h
      tokenize_sets_engine_theme_every_call
        [OF h, of "''L''" example_state example_world "''// hi''" example_state]
    by blast
qed

section \<open>The Theme Converter and errors\<close>

lemma push_scopes_settings:
  "push_scopes (Some (Settings fg)) ss rs =
     Inr (rs @
          (case fg of
             None \<Rightarrow> []
           | Some f \<Rightarrow>
               if f = [] then []
               else map (\<lambda>t. \<lparr>token = t, foreground = normalizeColor (Some f)\<rparr>)
                      (filter (\<lambda>t. t \<noteq> []) (List.map_filter id ss))))"
proof (induction ss arbitrary: rs)
  case Nil
  show ?case
    by (simp add: List.map_filter_simps split: option.split)
next
  case (Cons s ss)
  show ?case
    using Cons.IH by (cases s; cases fg) (simp_all add: List.map_filter_simps)
qed

lemma push_scopes_readable:
  assumes "readable_entry e"
  shows "push_scopes (settings e) (scopes_of (scope e)) rs = Inr (rs @ entry_rules e)"
proof (cases "settings e")
  case None
  with assms have "scopes_of (scope e) = []"
    by (simp add: readable_entry_def)
  with None show ?thesis
    by (simp add: entry_rules_def)
next
  case (Some st)
  obtain fg where "st = Settings fg"
    by (cases st)
  with Some show ?thesis
    by (simp add: push_scopes_settings entry_rules_def split: option.split)
qed

lemma push_scopes_unreadable:
  "\<not> readable_entry e \<Longrightarrow> push_scopes (settings e) (scopes_of (scope e)) rs = Inl TypeError"
  by (cases "scopes_of (scope e)") (simp_all add: readable_entry_def)

lemma push_settings_readable:
  "list_all readable_entry es \<Longrightarrow>
   push_settings es rs = Inr (rs @ concat (map entry_rules es))"
  by (induction es arbitrary: rs) (simp_all add: push_scopes_readable)

lemma convert_with_rules:
  "theme_rules theme = Some rs \<Longrightarrow> textmateThemeToMonacoTheme theme = Inr (host_form theme rs)"
  by (simp add: textmateThemeToMonacoTheme_def host_form_def)

lemma convert_with_settings:
  "theme_rules theme = None \<Longrightarrow> themeSettings_of theme = Some es \<Longrightarrow>
   list_all readable_entry es \<Longrightarrow>
   textmateThemeToMonacoTheme theme = Inr (host_form theme (concat (map entry_rules es)))"
  by (simp add: textmateThemeToMonacoTheme_def host_form_def push_settings_readable)

text \<open>
  With the editor's theme set to an identifier that no loaded theme has, \<open>tokenize\<close>
  raises on a line below the ceiling: \<open>themeMap.get\<close> gives \<open>undefined\<close>.
\<close>

lemma tokenize_raises_on_unregistered_theme:
  "themeMap w theme = None \<Longrightarrow> length line < tokenizeMaxLineLength \<Longrightarrow>
   fst (tokenize lang line state (editor_setTheme theme w)) = Inl TypeError"
  by (simp add: tokenize_short_unregistered registered_after_setTheme)

text \<open>
  C7, as the source has it. The converter raises no error on a source theme that
  carries pre-resolved rules, or a settings list (failing that, a \<open>tokenColors\<close> list)
  whose entries each carry a settings object or have an empty scope array: the rules are
  then the pre-resolved ones, or those of the entries in order, an entry without a
  foreground and a scope that is absent or empty giving none. \<open>tokenize\<close> raises no error
  on a line at or above the ceiling, nor on a shorter line when the current theme
  identifier has a registered host-form theme.
\<close>

theorem no_error_on_readable_input:
  "(theme_rules theme = Some rs \<longrightarrow>
      textmateThemeToMonacoTheme theme = Inr (host_form theme rs)) \<and>
   (theme_rules theme = None \<and> themeSettings_of theme = Some es \<and>
    list_all readable_entry es \<longrightarrow>
      textmateThemeToMonacoTheme theme = Inr (host_form theme (concat (map entry_rules es)))) \<and>
   (readable_theme theme \<longrightarrow> (\<exists>m. textmateThemeToMonacoTheme theme = Inr m)) \<and>
   (20000 \<le> length line \<or> registered_theme w = Some th \<longrightarrow>
      (\<exists>r. fst (tokenize lang line state w) = Inr r))"
proof -
  have a: "theme_rules theme = Some rs \<longrightarrow>
      textmateThemeToMonacoTheme theme = Inr (host_form theme rs)"
    by (simp add: convert_with_rules)
  have b: "theme_rules theme = None \<and> themeSettings_of theme = Some es \<and>
    list_all readable_entry es \<longrightarrow>
      textmateThemeToMonacoTheme theme = Inr (host_form theme (concat (map entry_rules es)))"
    by (simp add: convert_with_settings)
  have c: "readable_theme theme \<longrightarrow> (\<exists>m. textmateThemeToMonacoTheme theme = Inr m)"
  proof
    assume r: "readable_theme theme"
    show "\<exists>m. textmateThemeToMonacoTheme theme = Inr m"
    proof (cases "theme_rules theme")
      case (Some rs')
      then show ?thesis
        by (simp add: convert_with_rules)
    next
      case None
      with r obtain es' where "themeSettings_of theme = Some es'" and "list_all readable_entry es'"
        by (auto simp: readable_theme_def split: option.splits)
      with None show ?thesis
        by (simp add: convert_with_settings)
    qed
  qed
  have d: "20000 \<le> length line \<or> registered_theme w = Some th \<longrightarrow>
      (\<exists>r. fst (tokenize lang line state w) = Inr r)"
  proof
    assume h: "20000 \<le> length line \<or> registered_theme w = Some th"
    show "\<exists>r. fst (tokenize lang line state w) = Inr r"
    proof (cases "tokenizeMaxLineLength \<le> length line")
      case True
      then show ?thesis
        by (simp add: tokenize_long)
    next
      case False
      then have s: "length line < tokenizeMaxLineLength"
        by simp
      with h have "registered_theme w = Some th"
        by (simp add: tokenizeMaxLineLength_def)
      with s show ?thesis
        by (simp add: tokenize_short_registered)
    qed
  qed
  from a b c d show ?thesis
    by blast
qed

lemma example_dark_readable:
  "theme_rules example_dark = None \<and>
   themeSettings_of example_dark =
     Some [\<lparr>scope = ScopeArray [''comment'', ''''],
             settings = Some (Settings (Some ''#6A9955''))\<rparr>,
           \<lparr>scope = ScopeString ''keyword'', settings = Some (Settings None)\<rparr>,
           \<lparr>scope = ScopeUndefined, settings = Some (Settings (Some ''#fff''))\<rparr>,
           \<lparr>scope = ScopeString ''note'', settings = Some (Settings (Some ''#6a9955''))\<rparr>] \<and>
   list_all readable_entry
     [\<lparr>scope = ScopeArray [''comment'', ''''],
        settings = Some (Settings (Some ''#6A9955''))\<rparr>,
      \<lparr>scope = ScopeString ''keyword'', settings = Some (Settings None)\<rparr>,
      \<lparr>scope = ScopeUndefined, settings = Some (Settings (Some ''#fff''))\<rparr>,
      \<lparr>scope = ScopeString ''note'', settings = Some (Settings (Some ''#6a9955''))\<rparr>]"
  by (simp add: example_dark_def themeSettings_of_def readable_entry_def)

lemma example_dark_entry_rules:
  "concat (map entry_rules
     [\<lparr>scope = ScopeArray [''comment'', ''''],
        settings = Some (Settings (Some ''#6A9955''))\<rparr>,
      \<lparr>scope = ScopeString ''keyword'', settings = Some (Settings None)\<rparr>,
      \<lparr>scope = ScopeUndefined, settings = Some (Settings (Some ''#fff''))\<rparr>,
      \<lparr>scope = ScopeString ''note'', settings = Some (Settings (Some ''#6a9955''))\<rparr>]) =
   [\<lparr>token = ''comment'', foreground = Some ''6a9955''\<rparr>,
    \<lparr>token = ''note'', foreground = Some ''6a9955''\<rparr>]"
  by code_simp

theorem no_error_on_readable_input_witness:
  "theme_rules example_light = Some [\<lparr>token = ''string'', foreground = Some ''6a9955''\<rparr>] \<and>
   textmateThemeToMonacoTheme example_light =
     Inr (host_form example_light [\<lparr>token = ''string'', foreground = Some ''6a9955''\<rparr>]) \<and>
   textmateThemeToMonacoTheme example_dark =
     Inr (host_form example_dark
            [\<lparr>token = ''comment'', foreground = Some ''6a9955''\<rparr>,
             \<lparr>token = ''note'', foreground = Some ''6a9955''\<rparr>]) \<and>
   registered_theme example_world =
     Some \<lparr>base = ''vs'', inherit = False, colors = [],
            rules = [\<lparr>token = ''string'', foreground = Some ''6a9955''\<rparr>]\<rparr> \<and>
   (\<exists>r. fst (tokenize ''L'' ''// hi'' example_state example_world) = Inr r)"
proof -
  have l: "theme_rules example_light = Some [\<lparr>token = ''string'', foreground = Some ''6a9955''\<rparr>]"
    by (simp add: example_light_def)
  have c1: "textmateThemeToMonacoTheme example_light =
     Inr (host_form example_light [\<lparr>token = ''string'', foreground = Some ''6a9955''\<rparr>])"
    using l no_error_on_readable_input [where theme = example_light] by blast
  have c2: "textmateThemeToMonacoTheme example_dark =
     Inr (host_form example_dark
            [\<lparr>token = ''comment'', foreground = Some ''6a9955''\<rparr>,
             \<lparr>token = ''note'', foreground = Some ''6a9955''\<rparr>])"
    using example_dark_readable
      no_error_on_readable_input
        [where theme = example_dark and
           es = "[\<lparr>scope = ScopeArray [''comment'', ''''],
                    settings = Some (Settings (Some ''#6A9955''))\<rparr>,
                  \<lparr>scope = ScopeString ''keyword'', settings = Some (Settings None)\<rparr>,
                  \<lparr>scope = ScopeUndefined, settings = Some (Settings (Some ''#fff''))\<rparr>,
                  \<lparr>scope = ScopeString ''note'',
                    settings = Some (Settings (Some ''#6a9955''))\<rparr>]"]
    by (simp only: example_dark_entry_rules)
  have c3: "\<exists>r. fst (tokenize ''L'' ''// hi'' example_state example_world) = Inr r"
    using example_registered
      no_error_on_readable_input
        [where w = example_world and line = "''// hi''" and lang = "''L''" and
           state = example_state]
    by blast
  from l c1 c2 c3 example_registered show ?thesis
    by blast
qed

text \<open>
  The claim as stated fails: a theme with neither rules nor a settings list nor
  \<open>tokenColors\<close>, and a theme with an entry that has a scope and no settings object, make
  the converter raise; and after the editor's theme is set to \<open>vs\<close>, which no loaded
  theme has, \<open>tokenize\<close> raises.
\<close>

theorem raises_TypeError_counterexample:
  "textmateThemeToMonacoTheme
     \<lparr>theme_rules = None, theme_settings = None, theme_tokenColors = None,
        theme_colors = None, theme_type = ''dark''\<rparr> = Inl TypeError \<and>
   textmateThemeToMonacoTheme
     \<lparr>theme_rules = None,
        theme_settings = Some [\<lparr>scope = ScopeString ''comment'', settings = None\<rparr>],
        theme_tokenColors = None, theme_colors = None, theme_type = ''dark''\<rparr> = Inl TypeError \<and>
   themeMap example_world ''vs'' = None \<and>
   fst (tokenize ''L'' ''// hi'' example_state (editor_setTheme ''vs'' example_world)) =
     Inl TypeError"
proof -
  have a: "textmateThemeToMonacoTheme
     \<lparr>theme_rules = None, theme_settings = None, theme_tokenColors = None,
        theme_colors = None, theme_type = ''dark''\<rparr> = Inl TypeError"
    by (simp add: textmateThemeToMonacoTheme_def themeSettings_of_def)
  have b: "textmateThemeToMonacoTheme
     \<lparr>theme_rules = None,
        theme_settings = Some [\<lparr>scope = ScopeString ''comment'', settings = None\<rparr>],
        theme_tokenColors = None, theme_colors = None, theme_type = ''dark''\<rparr> = Inl TypeError"
    by (simp add: textmateThemeToMonacoTheme_def themeSettings_of_def scopes_of_def)
  have c: "themeMap example_world ''vs'' = None"
    by code_simp
  from a b c tokenize_raises_on_unregistered_theme [OF c example_short_line] show ?thesis
    by blast
qed

end
